theory Spec2Isabelle
  imports Main
begin

section \<open>JavaScript values the library inspects\<close>

text \<open>
  The library is TypeScript. Optional properties and \<^verbatim>\<open>undefined\<close> are modelled by
  \<open>option\<close>; a \<^verbatim>\<open>number\<close> is an integer (the expiry is a timestamp in
  milliseconds, the page size a count) or \<^verbatim>\<open>NaN\<close>. The operator \<^verbatim>\<open>||\<close> and the
  condition of an \<^verbatim>\<open>if\<close> test truthiness, not presence: the empty string, zero and
  \<^verbatim>\<open>NaN\<close> are falsy like \<^verbatim>\<open>undefined\<close>.
\<close>

datatype number = Num int | NaN

definition truthy_string :: "string option \<Rightarrow> bool" where
  "truthy_string v = (case v of None \<Rightarrow> False | Some s \<Rightarrow> s \<noteq> [])"

definition truthy_number :: "number option \<Rightarrow> bool" where
  "truthy_number v = (case v of None \<Rightarrow> False | Some NaN \<Rightarrow> False | Some (Num n) \<Rightarrow> n \<noteq> 0)"

text \<open>\<^verbatim>\<open>a || b\<close> on optional strings and on optional numbers.\<close>

definition or_string :: "string option \<Rightarrow> string option \<Rightarrow> string option" where
  "or_string a b = (if truthy_string a then a else b)"

definition or_number :: "number option \<Rightarrow> number option \<Rightarrow> number option" where
  "or_number a b = (if truthy_number a then a else b)"

text \<open>\<^verbatim>\<open>a || 'literal'\<close>: the literal replaces an absent or empty string.\<close>

definition string_or :: "string option \<Rightarrow> string \<Rightarrow> string" where
  "string_or a d = (case a of None \<Rightarrow> d | Some s \<Rightarrow> if s \<noteq> [] then s else d)"

section \<open>Credential bundles (types.ts)\<close>

record Tokens =
  access_token :: "string option"
  refresh_token :: "string option"
  expiry_date :: "number option"
  token_type :: "string option"
  accessToken :: "string option"
  refreshToken :: "string option"
  expiryDate :: "number option"
  tokenType :: "string option"

section \<open>Credential resolution (tokens.ts)\<close>

text \<open>
  What \<^verbatim>\<open>resolveTokens\<close> reads: two environment variables and the file system. A
  variable that is not set is \<open>None\<close>. \<open>path_resolve\<close> is \<^verbatim>\<open>path.resolve\<close> (it
  depends on the working directory), \<open>existsSync\<close> and \<open>readFileSync\<close> are those of
  \<^verbatim>\<open>fs\<close>; \<open>readFileSync\<close> gives \<open>None\<close> when it throws (a directory, no
  permission, a file removed since the test).
\<close>

record world =
  GMAIL_TOKEN :: "string option"
  GMAIL_TOKEN_FILE :: "string option"
  path_resolve :: "string \<Rightarrow> string"
  existsSync :: "string \<Rightarrow> bool"
  readFileSync :: "string \<Rightarrow> string option"

text \<open>The sources a call consulted, in the order of the reads.\<close>

datatype access = ReadEnv string | FileExists string | FileRead string

definition env_error :: string where
  "env_error = ''GMAIL_TOKEN environment variable is not valid JSON''"

definition file_error :: "string \<Rightarrow> string" where
  "file_error tokenPath = ''Failed to read or parse token file at '' @ tokenPath"

definition none_error :: string where
  "none_error = ''No Gmail tokens found. Provide tokens via: 1) GMAIL_TOKEN env var, 2) GMAIL_TOKEN_FILE env var pointing to JSON file, 3) direct function parameter''"

text \<open>\<^verbatim>\<open>path.resolve(process.env.GMAIL_TOKEN_FILE || './token.json')\<close>\<close>

definition tokenPath :: "world \<Rightarrow> string" where
  "tokenPath w = path_resolve w (string_or (GMAIL_TOKEN_FILE w) ''./token.json'')"

text \<open>
  Priority 3 of \<^verbatim>\<open>resolveTokens\<close>, the block after the environment variable. One
  \<^verbatim>\<open>try\<close> encloses the read and the parse, so both failures raise the same error.
  \<open>parse\<close> is \<^verbatim>\<open>JSON.parse\<close>, \<open>None\<close> when it throws.
\<close>

definition resolveTokens_file :: "(string \<Rightarrow> 'j option) \<Rightarrow> world \<Rightarrow> access list \<times> (string + 'j)" where
  "resolveTokens_file parse w =
    (if existsSync w (tokenPath w) then
       (case readFileSync w (tokenPath w) of
          None \<Rightarrow>
            ([ReadEnv ''GMAIL_TOKEN_FILE'', FileExists (tokenPath w), FileRead (tokenPath w)],
             Inl (file_error (tokenPath w)))
        | Some content \<Rightarrow>
            (case parse content of
               Some v \<Rightarrow>
                 ([ReadEnv ''GMAIL_TOKEN_FILE'', FileExists (tokenPath w), FileRead (tokenPath w)],
                  Inr v)
             | None \<Rightarrow>
                 ([ReadEnv ''GMAIL_TOKEN_FILE'', FileExists (tokenPath w), FileRead (tokenPath w)],
                  Inl (file_error (tokenPath w)))))
     else ([ReadEnv ''GMAIL_TOKEN_FILE'', FileExists (tokenPath w)], Inl none_error))"

text \<open>
  \<^verbatim>\<open>resolveTokens(provided?)\<close>. A thrown \<^verbatim>\<open>Error\<close> is \<open>Inl\<close> of its message. The
  type \<^verbatim>\<open>Tokens\<close> is an object type and every object is truthy, so
  \<^verbatim>\<open>if (provided)\<close> tests that a bundle was passed. \<^verbatim>\<open>if (envToken)\<close> tests that
  the variable is set and not empty; under that test \<open>string_or (GMAIL_TOKEN w) []\<close> is
  its text. The result of \<^verbatim>\<open>JSON.parse\<close> is returned as it is, whatever JSON value it
  is.
\<close>

definition resolveTokens :: "(string \<Rightarrow> 'j option) \<Rightarrow> 'j option \<Rightarrow> world \<Rightarrow> access list \<times> (string + 'j)" where
  "resolveTokens parse provided w =
    (case provided of
       Some bundle \<Rightarrow> ([], Inr bundle)
     | None \<Rightarrow>
         (if truthy_string (GMAIL_TOKEN w) then
            (case parse (string_or (GMAIL_TOKEN w) []) of
               Some v \<Rightarrow> ([ReadEnv ''GMAIL_TOKEN''], Inr v)
             | None \<Rightarrow> ([ReadEnv ''GMAIL_TOKEN''], Inl env_error))
          else
            (ReadEnv ''GMAIL_TOKEN'' # fst (resolveTokens_file parse w),
             snd (resolveTokens_file parse w))))"

section \<open>The client (index.ts)\<close>

subsection \<open>Field normalization in the constructor\<close>

text \<open>The object passed to \<^verbatim>\<open>OAuth2Client.setCredentials\<close>.\<close>

record Credentials =
  cred_access_token :: "string option"
  cred_refresh_token :: "string option"
  cred_expiry_date :: "number option"
  cred_token_type :: "string option"

text \<open>
  \<^verbatim>\<open>const normalizedTokens = { access_token: tokens.access_token || tokens.accessToken, ... }\<close>
\<close>

definition normalizedTokens :: "Tokens \<Rightarrow> Credentials" where
  "normalizedTokens tokens =
    \<lparr> cred_access_token = or_string (access_token tokens) (accessToken tokens),
      cred_refresh_token = or_string (refresh_token tokens) (refreshToken tokens),
      cred_expiry_date = or_number (expiry_date tokens) (expiryDate tokens),
      cred_token_type = or_string (token_type tokens) (tokenType tokens) \<rparr>"

subsection \<open>Options and requests\<close>

text \<open>
  \<^verbatim>\<open>ListMessagesOptions\<close> and \<^verbatim>\<open>ListThreadsOptions\<close> declare the same five optional
  fields; \<^verbatim>\<open>searchMessages\<close> takes the former without \<^verbatim>\<open>q\<close> and never reads it.
\<close>

record ListMessagesOptions =
  q :: "string option"
  maxResults :: "number option"
  pageToken :: "string option"
  includeSpamTrash :: "bool option"
  labelIds :: "string list option"

type_synonym ListThreadsOptions = ListMessagesOptions

record ModifyLabelsOptions =
  addLabelIds :: "string list option"
  removeLabelIds :: "string list option"

text \<open>
  \<^verbatim>\<open>to: string | string[]\<close>. The type requires it; the tool dispatcher forwards
  whatever the caller sent, so it may be \<^verbatim>\<open>undefined\<close> at run time (\<open>None\<close>).
  \<^verbatim>\<open>CreateDraftOptions\<close> is \<^verbatim>\<open>SendMessageOptions\<close> without \<^verbatim>\<open>labelIds\<close> and
  \<^verbatim>\<open>inReplyTo\<close>: the same record with those two fields absent.
\<close>

datatype recipients = One string | Many "string list"

record SendMessageOptions =
  to :: "recipients option"
  subject :: "string option"
  body :: "string option"
  html :: "bool option"
  threadId :: "string option"
  send_labelIds :: "string list option"
  inReplyTo :: "string option"

type_synonym CreateDraftOptions = SendMessageOptions

datatype format = Full | Minimal | Raw | Metadata

text \<open>The parameter objects handed to the Gmail SDK.\<close>

record list_params =
  lp_userId :: string
  lp_q :: "string option"
  lp_maxResults :: "number option"
  lp_pageToken :: "string option"
  lp_includeSpamTrash :: "bool option"
  lp_labelIds :: "string list option"

record get_params =
  gp_userId :: string
  gp_id :: "string option"
  gp_format :: format

record id_params =
  ip_userId :: string
  ip_id :: "string option"

record send_params =
  sp_userId :: string
  sp_raw :: string
  sp_threadId :: "string option"
  sp_labelIds :: "string list option"

record draft_params =
  dp_userId :: string
  dp_raw :: string
  dp_threadId :: "string option"

record modify_params =
  mp_userId :: string
  mp_id :: "string option"
  mp_addLabelIds :: "string list option"
  mp_removeLabelIds :: "string list option"

subsection \<open>The remote service and what a call can throw\<close>

text \<open>
  A thrown value is an \<^verbatim>\<open>Error\<close> object, represented by its message (the one
  property the library reads), or any other value \<open>'x\<close>. A resource of the mailbox
  (message, thread, label, draft) is an opaque payload \<open>'d\<close>. The response of a list
  call carries its collection in an optional field.
\<close>

datatype 'x thrown = Error string | NotError 'x

record 'd list_messages_data =
  messages :: "'d list option"

record 'd list_labels_data =
  labels :: "'d list option"

record 'd list_threads_data =
  threads :: "'d list option"

text \<open>
  \<^verbatim>\<open>google.gmail({ version: 'v1', auth })\<close>: one function per endpoint the client
  calls. Each either throws or returns \<^verbatim>\<open>response.data\<close>; a response whose data
  cannot be read makes the method throw inside the same \<^verbatim>\<open>try\<close> and counts as a
  call that threw.
\<close>

record ('d, 'x) gmail_api =
  messages_list :: "list_params \<Rightarrow> 'x thrown + 'd list_messages_data"
  messages_get :: "get_params \<Rightarrow> 'x thrown + 'd"
  messages_send :: "send_params \<Rightarrow> 'x thrown + 'd"
  messages_modify :: "modify_params \<Rightarrow> 'x thrown + 'd"
  messages_trash :: "id_params \<Rightarrow> 'x thrown + 'd"
  messages_untrash :: "id_params \<Rightarrow> 'x thrown + 'd"
  drafts_create :: "draft_params \<Rightarrow> 'x thrown + 'd"
  labels_list :: "string \<Rightarrow> 'x thrown + 'd list_labels_data"
  threads_list :: "list_params \<Rightarrow> 'x thrown + 'd list_threads_data"
  threads_get :: "get_params \<Rightarrow> 'x thrown + 'd"




subsection \<open>Error normalization\<close>

text \<open>
  What \<^verbatim>\<open>console.error\<close> was given: one string, or a string followed by a value.
\<close>

datatype 'x logline = Line string | LineWith string 'x

text \<open>
  \<^verbatim>\<open>handleError(error): never\<close> logs and throws; the model returns the grown log and
  the value thrown.
\<close>

definition handleError :: "'x thrown \<Rightarrow> 'x logline list \<Rightarrow> 'x logline list \<times> 'x thrown" where
  "handleError error console =
    (case error of
       Error message \<Rightarrow> (console @ [Line (''Gmail API error: '' @ message)], Error message)
     | NotError v \<Rightarrow>
         (console @ [LineWith ''Unknown Gmail API error:'' v], Error ''Unknown Gmail API error''))"

text \<open>
  Every method has the shape
  \<^verbatim>\<open>try { const response = await call(params); return f(response.data) } catch (error) { this.handleError(error) }\<close>.
  \<open>attempt\<close> is that \<^verbatim>\<open>try\<close> statement over the outcome of the call.
\<close>

definition attempt :: "'x thrown + 'r \<Rightarrow> ('r \<Rightarrow> 'a) \<Rightarrow> 'x logline list \<Rightarrow> 'x logline list \<times> ('x thrown + 'a)" where
  "attempt outcome f console =
    (case outcome of
       Inr data \<Rightarrow> (console, Inr (f data))
     | Inl error \<Rightarrow> (fst (handleError error console), Inl (snd (handleError error console))))"

text \<open>A parameter with the default \<^verbatim>\<open>'me'\<close>, and \<^verbatim>\<open>collection || []\<close>.\<close>

definition userId_or_me :: "string option \<Rightarrow> string" where
  "userId_or_me userId = (case userId of None \<Rightarrow> ''me'' | Some u \<Rightarrow> u)"

definition format_or_full :: "format option \<Rightarrow> format" where
  "format_or_full fmt = (case fmt of None \<Rightarrow> Full | Some f \<Rightarrow> f)"

definition or_empty :: "'d list option \<Rightarrow> 'd list" where
  "or_empty collection = (case collection of None \<Rightarrow> [] | Some xs \<Rightarrow> xs)"

text \<open>\<^verbatim>\<open>options?.field\<close>\<close>

definition opt :: "'o option \<Rightarrow> ('o \<Rightarrow> 'a option) \<Rightarrow> 'a option" where
  "opt options field = (case options of None \<Rightarrow> None | Some o' \<Rightarrow> field o')"

subsection \<open>The message envelope\<close>

text \<open>\<^verbatim>\<open>Array.prototype.join\<close> on an array of strings.\<close>

fun join :: "string \<Rightarrow> string list \<Rightarrow> string" where
  "join sep [] = []"
| "join sep [x] = x"
| "join sep (x # y # ys) = x @ sep @ join sep (y # ys)"

definition CRLF :: string where
  "CRLF = [CHR 0x0D, CHR 0x0A]"

text \<open>
  \<^verbatim>\<open>const to = Array.isArray(options.to) ? options.to.join(',') : options.to\<close>, as the
  template literal renders it.
\<close>

definition render_to :: "recipients option \<Rightarrow> string" where
  "render_to r = (case r of None \<Rightarrow> ''undefined'' | Some (One a) \<Rightarrow> a | Some (Many as) \<Rightarrow> join '','' as)"

definition contentType :: "SendMessageOptions \<Rightarrow> string" where
  "contentType options = (if html options = Some True then ''text/html'' else ''text/plain'')"

text \<open>The array \<^verbatim>\<open>headers\<close> of \<^verbatim>\<open>buildMessage\<close>, after the conditional pushes.\<close>

definition buildHeaders :: "SendMessageOptions \<Rightarrow> string list" where
  "buildHeaders options =
    [''To: '' @ render_to (to options),
     ''Subject: '' @ string_or (subject options) ''(no subject)'',
     ''Content-Type: '' @ contentType options @ ''; charset='' @ [CHR 0x22] @ ''UTF-8'' @ [CHR 0x22],
     ''MIME-Version: 1.0''] @
    (case inReplyTo options of
       None \<Rightarrow> []
     | Some i \<Rightarrow> if i \<noteq> [] then [''In-Reply-To: '' @ i, ''References: '' @ i] else [])"

definition buildMessage :: "SendMessageOptions \<Rightarrow> string" where
  "buildMessage options =
    join CRLF (buildHeaders options) @ CRLF @ CRLF @ string_or (body options) []"

text \<open>
  \<^verbatim>\<open>Buffer.from(email).toString('base64')\<close>: the standard base64 alphabet with
  padding (RFC 4648), over the bytes of the string (a \<open>char\<close> is a byte: a string
  stands for its UTF-8 encoding).
\<close>

definition base64_digit :: "nat \<Rightarrow> char" where
  "base64_digit n =
    ''ABCDEFGHIJKLMNOPQRSTUVWXYZabcdefghijklmnopqrstuvwxyz0123456789+/'' ! (n mod 64)"

fun base64 :: "string \<Rightarrow> string" where
  "base64 [] = []"
| "base64 [a] =
    (let n = (of_char a :: nat) * 16
     in [base64_digit (n div 64), base64_digit n, CHR ''='', CHR ''=''])"
| "base64 [a, b] =
    (let n = ((of_char a :: nat) * 256 + of_char b) * 4
     in [base64_digit (n div 4096), base64_digit (n div 64), base64_digit n, CHR ''=''])"
| "base64 (a # b # c # rest) =
    (let n = (of_char a :: nat) * 65536 + of_char b * 256 + of_char c
     in [base64_digit (n div 262144), base64_digit (n div 4096), base64_digit (n div 64),
         base64_digit n] @ base64 rest)"

subsection \<open>The methods of the client\<close>

text \<open>
  Each method takes the SDK handle of its client, its arguments and the log. Arguments
  the type requires (\<^verbatim>\<open>messageId\<close>, \<^verbatim>\<open>threadId\<close>, \<^verbatim>\<open>query\<close>) are options here:
  the tool dispatcher passes them on unchecked. The object literal a method hands to the
  SDK is a definition of its own, named after the method.
\<close>

definition listMessages_request :: "string option \<Rightarrow> ListMessagesOptions option \<Rightarrow> list_params" where
  "listMessages_request userId options =
    \<lparr> lp_userId = userId_or_me userId,
      lp_q = opt options q,
      lp_maxResults = opt options maxResults,
      lp_pageToken = opt options pageToken,
      lp_includeSpamTrash = opt options includeSpamTrash,
      lp_labelIds = opt options labelIds \<rparr>"

definition listMessages :: "('d, 'x) gmail_api \<Rightarrow> string option \<Rightarrow> ListMessagesOptions option \<Rightarrow> 'x logline list \<Rightarrow> 'x logline list \<times> ('x thrown + 'd list)" where
  "listMessages gmail userId options console =
    attempt (messages_list gmail (listMessages_request userId options))
      (\<lambda>data. or_empty (messages data)) console"

definition getMessage_request :: "string option \<Rightarrow> string option \<Rightarrow> format option \<Rightarrow> get_params" where
  "getMessage_request userId messageId fmt =
    \<lparr> gp_userId = userId_or_me userId, gp_id = messageId, gp_format = format_or_full fmt \<rparr>"

definition getMessage :: "('d, 'x) gmail_api \<Rightarrow> string option \<Rightarrow> string option \<Rightarrow> format option \<Rightarrow> 'x logline list \<Rightarrow> 'x logline list \<times> ('x thrown + 'd)" where
  "getMessage gmail userId messageId fmt console =
    attempt (messages_get gmail (getMessage_request userId messageId fmt)) (\<lambda>data. data) console"

definition searchMessages_request :: "string option \<Rightarrow> string option \<Rightarrow> ListMessagesOptions option \<Rightarrow> list_params" where
  "searchMessages_request userId query options =
    \<lparr> lp_userId = userId_or_me userId,
      lp_q = query,
      lp_maxResults = opt options maxResults,
      lp_pageToken = opt options pageToken,
      lp_includeSpamTrash = opt options includeSpamTrash,
      lp_labelIds = opt options labelIds \<rparr>"

definition searchMessages :: "('d, 'x) gmail_api \<Rightarrow> string option \<Rightarrow> string option \<Rightarrow> ListMessagesOptions option \<Rightarrow> 'x logline list \<Rightarrow> 'x logline list \<times> ('x thrown + 'd list)" where
  "searchMessages gmail userId query options console =
    attempt (messages_list gmail (searchMessages_request userId query options))
      (\<lambda>data. or_empty (messages data)) console"

definition sendMessage_request :: "string option \<Rightarrow> SendMessageOptions \<Rightarrow> send_params" where
  "sendMessage_request userId options =
    \<lparr> sp_userId = userId_or_me userId,
      sp_raw = base64 (buildMessage options),
      sp_threadId = threadId options,
      sp_labelIds = send_labelIds options \<rparr>"

definition sendMessage :: "('d, 'x) gmail_api \<Rightarrow> string option \<Rightarrow> SendMessageOptions \<Rightarrow> 'x logline list \<Rightarrow> 'x logline list \<times> ('x thrown + 'd)" where
  "sendMessage gmail userId options console =
    attempt (messages_send gmail (sendMessage_request userId options)) (\<lambda>data. data) console"

definition createDraft_request :: "string option \<Rightarrow> CreateDraftOptions \<Rightarrow> draft_params" where
  "createDraft_request userId options =
    \<lparr> dp_userId = userId_or_me userId,
      dp_raw = base64 (buildMessage options),
      dp_threadId = threadId options \<rparr>"

definition createDraft :: "('d, 'x) gmail_api \<Rightarrow> string option \<Rightarrow> CreateDraftOptions \<Rightarrow> 'x logline list \<Rightarrow> 'x logline list \<times> ('x thrown + 'd)" where
  "createDraft gmail userId options console =
    attempt (drafts_create gmail (createDraft_request userId options)) (\<lambda>data. data) console"

definition listLabels :: "('d, 'x) gmail_api \<Rightarrow> string option \<Rightarrow> 'x logline list \<Rightarrow> 'x logline list \<times> ('x thrown + 'd list)" where
  "listLabels gmail userId console =
    attempt (labels_list gmail (userId_or_me userId)) (\<lambda>data. or_empty (labels data)) console"

definition modifyMessageLabels_request :: "string option \<Rightarrow> string option \<Rightarrow> ModifyLabelsOptions \<Rightarrow> modify_params" where
  "modifyMessageLabels_request userId messageId options =
    \<lparr> mp_userId = userId_or_me userId,
      mp_id = messageId,
      mp_addLabelIds = addLabelIds options,
      mp_removeLabelIds = removeLabelIds options \<rparr>"

definition modifyMessageLabels :: "('d, 'x) gmail_api \<Rightarrow> string option \<Rightarrow> string option \<Rightarrow> ModifyLabelsOptions \<Rightarrow> 'x logline list \<Rightarrow> 'x logline list \<times> ('x thrown + 'd)" where
  "modifyMessageLabels gmail userId messageId options console =
    attempt (messages_modify gmail (modifyMessageLabels_request userId messageId options))
      (\<lambda>data. data) console"

definition trashMessage_request :: "string option \<Rightarrow> string option \<Rightarrow> id_params" where
  "trashMessage_request userId messageId =
    \<lparr> ip_userId = userId_or_me userId, ip_id = messageId \<rparr>"

definition trashMessage :: "('d, 'x) gmail_api \<Rightarrow> string option \<Rightarrow> string option \<Rightarrow> 'x logline list \<Rightarrow> 'x logline list \<times> ('x thrown + 'd)" where
  "trashMessage gmail userId messageId console =
    attempt (messages_trash gmail (trashMessage_request userId messageId)) (\<lambda>data. data) console"

definition untrashMessage_request :: "string option \<Rightarrow> string option \<Rightarrow> id_params" where
  "untrashMessage_request userId messageId =
    \<lparr> ip_userId = userId_or_me userId, ip_id = messageId \<rparr>"

definition untrashMessage :: "('d, 'x) gmail_api \<Rightarrow> string option \<Rightarrow> string option \<Rightarrow> 'x logline list \<Rightarrow> 'x logline list \<times> ('x thrown + 'd)" where
  "untrashMessage gmail userId messageId console =
    attempt (messages_untrash gmail (untrashMessage_request userId messageId)) (\<lambda>data. data) console"

definition listThreads_request :: "string option \<Rightarrow> ListThreadsOptions option \<Rightarrow> list_params" where
  "listThreads_request userId options =
    \<lparr> lp_userId = userId_or_me userId,
      lp_q = opt options q,
      lp_maxResults = opt options maxResults,
      lp_pageToken = opt options pageToken,
      lp_includeSpamTrash = opt options includeSpamTrash,
      lp_labelIds = opt options labelIds \<rparr>"

definition listThreads :: "('d, 'x) gmail_api \<Rightarrow> string option \<Rightarrow> ListThreadsOptions option \<Rightarrow> 'x logline list \<Rightarrow> 'x logline list \<times> ('x thrown + 'd list)" where
  "listThreads gmail userId options console =
    attempt (threads_list gmail (listThreads_request userId options))
      (\<lambda>data. or_empty (threads data)) console"

definition getThread_request :: "string option \<Rightarrow> string option \<Rightarrow> format option \<Rightarrow> get_params" where
  "getThread_request userId thread fmt =
    \<lparr> gp_userId = userId_or_me userId, gp_id = thread, gp_format = format_or_full fmt \<rparr>"

definition getThread :: "('d, 'x) gmail_api \<Rightarrow> string option \<Rightarrow> string option \<Rightarrow> format option \<Rightarrow> 'x logline list \<Rightarrow> 'x logline list \<times> ('x thrown + 'd)" where
  "getThread gmail userId thread fmt console =
    attempt (threads_get gmail (getThread_request userId thread fmt)) (\<lambda>data. data) console"

text \<open>
  The reading of \<^verbatim>\<open>searchMessages\<close> as a list call: \<^verbatim>\<open>listMessages\<close> on the options
  with their \<^verbatim>\<open>q\<close> set to the query (absent options are the empty object).
\<close>

definition with_query :: "string \<Rightarrow> ListMessagesOptions option \<Rightarrow> ListMessagesOptions" where
  "with_query query options =
    (case options of
       None \<Rightarrow> \<lparr> q = Some query, maxResults = None, pageToken = None,
                  includeSpamTrash = None, labelIds = None \<rparr>
     | Some given \<Rightarrow> given \<lparr> q := Some query \<rparr>)"

definition listMessages_with_query :: "('d, 'x) gmail_api \<Rightarrow> string option \<Rightarrow> string \<Rightarrow> ListMessagesOptions option \<Rightarrow> 'x logline list \<Rightarrow> 'x logline list \<times> ('x thrown + 'd list)" where
  "listMessages_with_query gmail userId query options console =
    listMessages gmail userId (Some (with_query query options)) console"


section \<open>The tool dispatcher (the handler of CallToolRequestSchema)\<close>





datatype content = TextContent string

record CallToolResult =
  content :: "content list"
  isError :: "bool option"








section \<open>Stand-ins of the test suite\<close>

text \<open>
  The tests replace the file system by mocks that answer every path alike
  (\<^verbatim>\<open>mockReturnValue\<close>); \<open>mock_world\<close> is such a world, with the two variables of
  the environment as given and \<^verbatim>\<open>path.resolve\<close> the identity. \<open>mock_parse\<close> agrees with
  \<^verbatim>\<open>JSON.parse\<close> on the texts the examples use: the JSON numbers \<^verbatim>\<open>1\<close> and \<^verbatim>\<open>2\<close>
  parse, the empty text and \<^verbatim>\<open>invalid-json{\<close> do not.
\<close>

definition mock_world :: "string option \<Rightarrow> string option \<Rightarrow> bool \<Rightarrow> string option \<Rightarrow> world" where
  "mock_world env_token env_file file_exists file_content =
    \<lparr> GMAIL_TOKEN = env_token, GMAIL_TOKEN_FILE = env_file, path_resolve = (\<lambda>p. p),
      existsSync = (\<lambda>p. file_exists), readFileSync = (\<lambda>p. file_content) \<rparr>"

definition mock_parse :: "string \<Rightarrow> number option" where
  "mock_parse s = (if s = ''1'' then Some (Num 1) else if s = ''2'' then Some (Num 2) else None)"

text \<open>
  The SDK mock whose every endpoint rejects with the same value
  (\<^verbatim>\<open>mockRejectedValue\<close>); single endpoints are replaced by record update. The options
  of the reply are those of the tests of \<^verbatim>\<open>sendMessage\<close>, put together.
\<close>

definition rejecting_api :: "'x thrown \<Rightarrow> ('d, 'x) gmail_api" where
  "rejecting_api failure =
    \<lparr> messages_list = (\<lambda>p. Inl failure), messages_get = (\<lambda>p. Inl failure),
      messages_send = (\<lambda>p. Inl failure), messages_modify = (\<lambda>p. Inl failure),
      messages_trash = (\<lambda>p. Inl failure), messages_untrash = (\<lambda>p. Inl failure),
      drafts_create = (\<lambda>p. Inl failure), labels_list = (\<lambda>p. Inl failure),
      threads_list = (\<lambda>p. Inl failure), threads_get = (\<lambda>p. Inl failure) \<rparr>"

definition reply_options :: SendMessageOptions where
  "reply_options =
    \<lparr> to = Some (Many [''test1@example.com'', ''test2@example.com'']), subject = None,
      body = Some ''Reply body'', html = Some True, threadId = None, send_labelIds = None,
      inReplyTo = Some ''msg123'' \<rparr>"



text \<open>
  The options of the test with two recipients, and a parser for the dispatcher that
  agrees with \<^verbatim>\<open>JSON.parse\<close> on the text \<^verbatim>\<open>null\<close> and refuses every other text.
\<close>

definition plain_options :: SendMessageOptions where
  "plain_options =
    \<lparr> to = Some (Many [''test1@example.com'', ''test2@example.com'']), subject = Some ''Test'',
      body = Some ''Test body'', html = None, threadId = None, send_labelIds = None,
      inReplyTo = None \<rparr>"


section \<open>Credential resolution: results\<close>

text \<open>
  C1, as the code has it. A passed bundle is the result. Without one, a non-empty
  \<^verbatim>\<open>GMAIL_TOKEN\<close> decides alone: its parsed value is the result, and when it does not
  parse the call fails with the error of the environment source, whatever the file
  holds. The file is read only when \<^verbatim>\<open>GMAIL_TOKEN\<close> is unset or empty; then the parsed
  content of an existing, readable file is the result. Each result is the value of one
  source, never a combination.
\<close>

theorem resolveTokens_priority:
  "snd (resolveTokens parse (Some bundle) w) = Inr bundle \<and>
   (\<forall>s v. GMAIL_TOKEN w = Some s \<and> s \<noteq> [] \<and> parse s = Some v \<longrightarrow>
      snd (resolveTokens parse None w) = Inr v) \<and>
   (\<forall>s. GMAIL_TOKEN w = Some s \<and> s \<noteq> [] \<and> parse s = None \<longrightarrow>
      snd (resolveTokens parse None w) = Inl env_error) \<and>
   (\<forall>c v. (GMAIL_TOKEN w = None \<or> GMAIL_TOKEN w = Some []) \<and> existsSync w (tokenPath w) \<and>
      readFileSync w (tokenPath w) = Some c \<and> parse c = Some v \<longrightarrow>
      snd (resolveTokens parse None w) = Inr v)"
  by (auto simp add: resolveTokens_def resolveTokens_file_def truthy_string_def string_or_def)

text \<open>
  The four cases on the mocked world whose file holds \<^verbatim>\<open>2\<close>: a passed bundle wins over
  \<^verbatim>\<open>GMAIL_TOKEN = 1\<close>, which wins over the file; a malformed \<^verbatim>\<open>GMAIL_TOKEN\<close> fails; an
  unset or empty one lets the file through.
\<close>

theorem resolveTokens_priority_witness:
  "snd (resolveTokens mock_parse (Some (Num 3)) (mock_world (Some ''1'') None True (Some ''2''))) = Inr (Num 3) \<and>
   snd (resolveTokens mock_parse None (mock_world (Some ''1'') None True (Some ''2''))) = Inr (Num 1) \<and>
   snd (resolveTokens mock_parse None (mock_world (Some ''invalid-json{'') None True (Some ''2''))) = Inl env_error \<and>
   snd (resolveTokens mock_parse None (mock_world None None True (Some ''2''))) = Inr (Num 2) \<and>
   snd (resolveTokens mock_parse None (mock_world (Some []) None True (Some ''2''))) = Inr (Num 2)"
  using resolveTokens_priority [of mock_parse "Num 3" "mock_world (Some ''1'') None True (Some ''2'')"]
    resolveTokens_priority [of mock_parse "Num 3" "mock_world (Some ''invalid-json{'') None True (Some ''2'')"]
    resolveTokens_priority [of mock_parse "Num 3" "mock_world None None True (Some ''2'')"]
    resolveTokens_priority [of mock_parse "Num 3" "mock_world (Some []) None True (Some ''2'')"]
  by (simp add: mock_world_def mock_parse_def)

text \<open>
  C1 as stated lets the file answer whenever the environment variable does not both
  exist and parse. With \<^verbatim>\<open>GMAIL_TOKEN\<close> set to \<^verbatim>\<open>invalid-json{\<close> and a file that exists and
  parses to \<^verbatim>\<open>2\<close>, the call does not return the file's value: it fails.
\<close>

theorem resolveTokens_malformed_env_shadows_file:
  "GMAIL_TOKEN (mock_world (Some ''invalid-json{'') None True (Some ''2'')) = Some ''invalid-json{'' \<and>
   mock_parse ''invalid-json{'' = None \<and>
   existsSync (mock_world (Some ''invalid-json{'') None True (Some ''2''))
     (tokenPath (mock_world (Some ''invalid-json{'') None True (Some ''2''))) \<and>
   readFileSync (mock_world (Some ''invalid-json{'') None True (Some ''2''))
     (tokenPath (mock_world (Some ''invalid-json{'') None True (Some ''2''))) = Some ''2'' \<and>
   mock_parse ''2'' = Some (Num 2) \<and>
   snd (resolveTokens mock_parse None (mock_world (Some ''invalid-json{'') None True (Some ''2''))) =
     Inl ''GMAIL_TOKEN environment variable is not valid JSON''"
  by (simp add: mock_world_def mock_parse_def resolveTokens_def truthy_string_def string_or_def
      env_error_def)

text \<open>
  C6, as the code has it. Resolution fails in four ways with three messages: a
  non-empty \<^verbatim>\<open>GMAIL_TOKEN\<close> that does not parse; an existing token file that cannot be
  read and an existing token file whose content does not parse, which share one message
  naming the resolved path; and no source at all. The three messages differ from one
  another whatever the path is, so a malformed environment source is told from a
  malformed file. An unreadable file is not told from a malformed one.
\<close>

theorem resolveTokens_failures:
  "(\<forall>s. GMAIL_TOKEN w = Some s \<and> s \<noteq> [] \<and> parse s = None \<longrightarrow>
      snd (resolveTokens parse None w) = Inl env_error) \<and>
   ((GMAIL_TOKEN w = None \<or> GMAIL_TOKEN w = Some []) \<and> existsSync w (tokenPath w) \<and>
      readFileSync w (tokenPath w) = None \<longrightarrow>
      snd (resolveTokens parse None w) = Inl (file_error (tokenPath w))) \<and>
   (\<forall>c. (GMAIL_TOKEN w = None \<or> GMAIL_TOKEN w = Some []) \<and> existsSync w (tokenPath w) \<and>
      readFileSync w (tokenPath w) = Some c \<and> parse c = None \<longrightarrow>
      snd (resolveTokens parse None w) = Inl (file_error (tokenPath w))) \<and>
   ((GMAIL_TOKEN w = None \<or> GMAIL_TOKEN w = Some []) \<and> \<not> existsSync w (tokenPath w) \<longrightarrow>
      snd (resolveTokens parse None w) = Inl none_error) \<and>
   env_error \<noteq> file_error p \<and> env_error \<noteq> none_error \<and> file_error p \<noteq> none_error"
  by (auto simp add: resolveTokens_def resolveTokens_file_def truthy_string_def string_or_def
      env_error_def file_error_def none_error_def)

theorem resolveTokens_failures_witness:
  "snd (resolveTokens mock_parse None (mock_world (Some ''invalid-json{'') None True (Some ''2''))) =
     Inl ''GMAIL_TOKEN environment variable is not valid JSON'' \<and>
   snd (resolveTokens mock_parse None (mock_world None None True None)) =
     Inl ''Failed to read or parse token file at ./token.json'' \<and>
   snd (resolveTokens mock_parse None
         (mock_world None (Some ''/custom/path/token.json'') True (Some ''invalid-json{''))) =
     Inl ''Failed to read or parse token file at /custom/path/token.json'' \<and>
   snd (resolveTokens mock_parse None (mock_world None None False None)) =
     Inl ''No Gmail tokens found. Provide tokens via: 1) GMAIL_TOKEN env var, 2) GMAIL_TOKEN_FILE env var pointing to JSON file, 3) direct function parameter''"
  using resolveTokens_failures [of "mock_world (Some ''invalid-json{'') None True (Some ''2'')" mock_parse]
    resolveTokens_failures [of "mock_world None None True None" mock_parse]
    resolveTokens_failures [of "mock_world None (Some ''/custom/path/token.json'') True (Some ''invalid-json{'')" mock_parse]
    resolveTokens_failures [of "mock_world None None False None" mock_parse]
  by (simp add: mock_world_def mock_parse_def tokenPath_def string_or_def env_error_def
      file_error_def none_error_def)

text \<open>
  C6 as stated tells an unreadable file from a malformed one. The same path, once
  unreadable and once holding \<^verbatim>\<open>invalid-json{\<close>, fails with the same message.
\<close>

theorem resolveTokens_unreadable_like_malformed:
  "readFileSync (mock_world None None True None) (tokenPath (mock_world None None True None)) = None \<and>
   readFileSync (mock_world None None True (Some ''invalid-json{''))
     (tokenPath (mock_world None None True (Some ''invalid-json{''))) = Some ''invalid-json{'' \<and>
   mock_parse ''invalid-json{'' = None \<and>
   snd (resolveTokens mock_parse None (mock_world None None True None)) =
     Inl ''Failed to read or parse token file at ./token.json'' \<and>
   snd (resolveTokens mock_parse None (mock_world None None True (Some ''invalid-json{''))) =
     Inl ''Failed to read or parse token file at ./token.json''"
  by (simp add: mock_world_def mock_parse_def resolveTokens_def resolveTokens_file_def
      truthy_string_def tokenPath_def string_or_def file_error_def)

text \<open>
  C7. With no bundle passed, \<^verbatim>\<open>GMAIL_TOKEN\<close> unset (or empty) and no file at the token
  path, the call fails with one message that lists the three ways to supply
  credentials: the environment variable, the file named by \<^verbatim>\<open>GMAIL_TOKEN_FILE\<close>, and
  the function parameter.
\<close>

theorem resolveTokens_no_source:
  assumes "GMAIL_TOKEN w = None \<or> GMAIL_TOKEN w = Some []" and "\<not> existsSync w (tokenPath w)"
  shows "snd (resolveTokens parse None w) =
    Inl (''No Gmail tokens found. Provide tokens via: '' @ ''1) GMAIL_TOKEN env var'' @ '', '' @
         ''2) GMAIL_TOKEN_FILE env var pointing to JSON file'' @ '', '' @
         ''3) direct function parameter'')"
  using assms
  by (auto simp add: resolveTokens_def resolveTokens_file_def truthy_string_def none_error_def)

theorem resolveTokens_no_source_witness:
  "GMAIL_TOKEN (mock_world None None False None) = None \<and>
   \<not> existsSync (mock_world None None False None) (tokenPath (mock_world None None False None)) \<and>
   snd (resolveTokens mock_parse None (mock_world None None False None)) =
     Inl ''No Gmail tokens found. Provide tokens via: 1) GMAIL_TOKEN env var, 2) GMAIL_TOKEN_FILE env var pointing to JSON file, 3) direct function parameter''"
  using resolveTokens_no_source [of "mock_world None None False None" mock_parse]
  by (simp add: mock_world_def)

text \<open>
  C8. A bundle passed to \<^verbatim>\<open>resolveTokens\<close> is returned as it is, whatever its fields
  hold (all of them may be absent), and nothing is read: neither the environment nor
  the file system is consulted, whatever they contain.
\<close>

theorem resolveTokens_provided:
  "resolveTokens parse (Some bundle) w = ([], Inr bundle)"
  by (simp add: resolveTokens_def)

section \<open>Field normalization: results\<close>

lemma or_string_truthy: "v \<noteq> [] \<Longrightarrow> or_string (Some v) b = Some v"
  by (simp add: or_string_def truthy_string_def)

lemma or_string_falsy: "a = None \<or> a = Some [] \<Longrightarrow> or_string a b = b"
  by (auto simp add: or_string_def truthy_string_def)

lemma or_number_truthy: "n \<noteq> 0 \<Longrightarrow> or_number (Some (Num n)) b = Some (Num n)"
  by (simp add: or_number_def truthy_number_def)

lemma or_number_falsy: "a = None \<or> a = Some (Num 0) \<or> a = Some NaN \<Longrightarrow> or_number a b = b"
  by (auto simp add: or_number_def truthy_number_def)

lemma normalizedTokens_sel:
  "cred_access_token (normalizedTokens t) = or_string (access_token t) (accessToken t)"
  "cred_refresh_token (normalizedTokens t) = or_string (refresh_token t) (refreshToken t)"
  "cred_expiry_date (normalizedTokens t) = or_number (expiry_date t) (expiryDate t)"
  "cred_token_type (normalizedTokens t) = or_string (token_type t) (tokenType t)"
  by (simp_all add: normalizedTokens_def)

text \<open>
  C2, as the code has it. Each of the four fields is chosen on its own: the value under
  the underscore name when it is present and truthy (a non-empty string, a number other
  than zero and \<^verbatim>\<open>NaN\<close>), else whatever stands under the camel-case name, which may
  be absent. A field absent under both names is absent in the result. The result of a
  field depends on the two inputs of that field only. Normalization is a total function:
  it has a result for every bundle.
\<close>

theorem normalizedTokens_selection:
  "(\<forall>v. access_token t = Some v \<and> v \<noteq> [] \<longrightarrow> cred_access_token (normalizedTokens t) = Some v) \<and>
   (access_token t = None \<or> access_token t = Some [] \<longrightarrow>
      cred_access_token (normalizedTokens t) = accessToken t) \<and>
   (\<forall>v. refresh_token t = Some v \<and> v \<noteq> [] \<longrightarrow> cred_refresh_token (normalizedTokens t) = Some v) \<and>
   (refresh_token t = None \<or> refresh_token t = Some [] \<longrightarrow>
      cred_refresh_token (normalizedTokens t) = refreshToken t) \<and>
   (\<forall>n. expiry_date t = Some (Num n) \<and> n \<noteq> 0 \<longrightarrow>
      cred_expiry_date (normalizedTokens t) = Some (Num n)) \<and>
   (expiry_date t = None \<or> expiry_date t = Some (Num 0) \<or> expiry_date t = Some NaN \<longrightarrow>
      cred_expiry_date (normalizedTokens t) = expiryDate t) \<and>
   (\<forall>v. token_type t = Some v \<and> v \<noteq> [] \<longrightarrow> cred_token_type (normalizedTokens t) = Some v) \<and>
   (token_type t = None \<or> token_type t = Some [] \<longrightarrow>
      cred_token_type (normalizedTokens t) = tokenType t) \<and>
   (access_token t' = access_token t \<and> accessToken t' = accessToken t \<longrightarrow>
      cred_access_token (normalizedTokens t') = cred_access_token (normalizedTokens t)) \<and>
   (refresh_token t' = refresh_token t \<and> refreshToken t' = refreshToken t \<longrightarrow>
      cred_refresh_token (normalizedTokens t') = cred_refresh_token (normalizedTokens t)) \<and>
   (expiry_date t' = expiry_date t \<and> expiryDate t' = expiryDate t \<longrightarrow>
      cred_expiry_date (normalizedTokens t') = cred_expiry_date (normalizedTokens t)) \<and>
   (token_type t' = token_type t \<and> tokenType t' = tokenType t \<longrightarrow>
      cred_token_type (normalizedTokens t') = cred_token_type (normalizedTokens t))"
  unfolding normalizedTokens_sel
  by (intro conjI allI impI) (simp_all add: or_string_truthy or_string_falsy or_number_truthy or_number_falsy)

text \<open>
  The bundle of the test with mixed conventions, with an empty \<^verbatim>\<open>token_type\<close> added.
\<close>

theorem normalizedTokens_selection_witness:
  "normalizedTokens
     \<lparr> access_token = Some ''snake-access'', refresh_token = None,
       expiry_date = Some (Num 1234567890), token_type = Some [],
       accessToken = None, refreshToken = Some ''camel-refresh'',
       expiryDate = None, tokenType = Some ''Bearer'' \<rparr> =
   \<lparr> cred_access_token = Some ''snake-access'', cred_refresh_token = Some ''camel-refresh'',
     cred_expiry_date = Some (Num 1234567890), cred_token_type = Some ''Bearer'' \<rparr>"
  using normalizedTokens_selection [of "\<lparr> access_token = Some ''snake-access'', refresh_token = None,
       expiry_date = Some (Num 1234567890), token_type = Some [],
       accessToken = None, refreshToken = Some ''camel-refresh'',
       expiryDate = None, tokenType = Some ''Bearer'' \<rparr>"]
  by (simp add: Credentials.equality)

text \<open>
  C2 as stated takes the underscore value whenever it is present. An \<^verbatim>\<open>expiry_date\<close>
  of 0 and an empty \<^verbatim>\<open>access_token\<close> are present, and the camel-case values are
  taken in their place.
\<close>

theorem normalizedTokens_falsy_underscore:
  "expiry_date
     \<lparr> access_token = Some [], refresh_token = None, expiry_date = Some (Num 0),
       token_type = None, accessToken = Some ''camel-access'', refreshToken = None,
       expiryDate = Some (Num 1234567890), tokenType = None \<rparr> = Some (Num 0) \<and>
   cred_expiry_date (normalizedTokens
     \<lparr> access_token = Some [], refresh_token = None, expiry_date = Some (Num 0),
       token_type = None, accessToken = Some ''camel-access'', refreshToken = None,
       expiryDate = Some (Num 1234567890), tokenType = None \<rparr>) = Some (Num 1234567890) \<and>
   cred_access_token (normalizedTokens
     \<lparr> access_token = Some [], refresh_token = None, expiry_date = Some (Num 0),
       token_type = None, accessToken = Some ''camel-access'', refreshToken = None,
       expiryDate = Some (Num 1234567890), tokenType = None \<rparr>) = Some ''camel-access''"
  by (simp add: normalizedTokens_def or_string_def or_number_def truthy_string_def
      truthy_number_def)

section \<open>The client: results\<close>

lemma buildHeaders_nth:
  "buildHeaders options ! 0 = ''To: '' @ render_to (to options)"
  "buildHeaders options ! 1 = ''Subject: '' @ string_or (subject options) ''(no subject)''"
  "buildHeaders options ! 2 =
     ''Content-Type: '' @ contentType options @ ''; charset='' @ [CHR 0x22] @ ''UTF-8'' @ [CHR 0x22]"
  "buildHeaders options ! 3 = ''MIME-Version: 1.0''"
  by (simp_all add: buildHeaders_def)

lemma buildHeaders_reply:
  "inReplyTo options = Some i \<Longrightarrow> i \<noteq> [] \<Longrightarrow>
   buildHeaders options =
     [buildHeaders options ! 0, buildHeaders options ! 1, buildHeaders options ! 2,
      buildHeaders options ! 3, ''In-Reply-To: '' @ i, ''References: '' @ i]"
  by (simp add: buildHeaders_def)

lemma attempt_Inr: "attempt (Inr data) f console = (console, Inr (f data))"
  by (simp add: attempt_def)

lemma attempt_Inl:
  "attempt (Inl e) f console = (fst (handleError e console), Inl (snd (handleError e console)))"
  by (simp add: attempt_def)

lemma buildHeaders_plain:
  "inReplyTo options = None \<or> inReplyTo options = Some [] \<Longrightarrow>
   buildHeaders options =
     [buildHeaders options ! 0, buildHeaders options ! 1, buildHeaders options ! 2,
      buildHeaders options ! 3]"
  by (auto simp add: buildHeaders_def)

lemma string_or_empty: "string_or b [] = (case b of None \<Rightarrow> [] | Some s \<Rightarrow> s)"
  by (simp add: string_or_def split: option.splits)

text \<open>Four characters for every three bytes, the last group padded.\<close>

lemma base64_length: "length (base64 bytes) = 4 * ((length bytes + 2) div 3)"
proof (induction bytes rule: base64.induct)
  case (4 a b c rest)
  have "(length rest + 5) div 3 = Suc ((length rest + 2) div 3)"
    by presburger
  with 4 show ?case
    by (simp add: Let_def add.commute)
qed (simp_all add: Let_def)

text \<open>
  The envelope of the reply of the tests and its base64 text, as
  \<^verbatim>\<open>Buffer.from(email).toString('base64')\<close> yields it.
\<close>

lemma envelope_base64_example:
  "base64 (buildMessage reply_options) = ''VG86IHRlc3QxQGV4YW1wbGUuY29tLHRlc3QyQGV4YW1wbGUuY29tDQpTdWJqZWN0OiAobm8gc3ViamVjdCkNCkNvbnRlbnQtVHlwZTogdGV4dC9odG1sOyBjaGFyc2V0PSJVVEYtOCINCk1JTUUtVmVyc2lvbjogMS4wDQpJbi1SZXBseS1UbzogbXNnMTIzDQpSZWZlcmVuY2VzOiBtc2cxMjMNCg0KUmVwbHkgYm9keQ==''"
  by (simp add: buildMessage_def buildHeaders_def reply_options_def render_to_def contentType_def string_or_def CRLF_def base64_digit_def Let_def)

text \<open>
  C3, as the code has it. The envelope is its header lines, each followed by CR LF, an
  empty line, and the body (empty when none is given). The first four lines are always
  there: \<^verbatim>\<open>To\<close>, with a list of recipients joined by commas; \<^verbatim>\<open>Subject\<close>, which
  holds \<^verbatim>\<open>(no subject)\<close> when no subject (or an empty one) is supplied;
  \<^verbatim>\<open>Content-Type\<close>, which is \<^verbatim>\<open>text/html\<close> exactly when \<^verbatim>\<open>html\<close> is true and
  \<^verbatim>\<open>text/plain\<close> otherwise; and \<^verbatim>\<open>MIME-Version\<close>. Without \<^verbatim>\<open>inReplyTo\<close>, or with
  an empty one, these four are all the headers. A non-empty \<^verbatim>\<open>inReplyTo\<close> adds an
  \<^verbatim>\<open>In-Reply-To\<close> and a \<^verbatim>\<open>References\<close> header after them, both with that
  identifier. The requests of \<^verbatim>\<open>sendMessage\<close> and \<^verbatim>\<open>createDraft\<close> carry the base64
  text of the envelope: an SDK that answers with the request it got shows it for
  \<^verbatim>\<open>sendMessage\<close>.
\<close>

theorem buildMessage_envelope:
  "(\<forall>rs. to options = Some (Many rs) \<longrightarrow> buildHeaders options ! 0 = ''To: '' @ join '','' rs) \<and>
   (\<forall>a. to options = Some (One a) \<longrightarrow> buildHeaders options ! 0 = ''To: '' @ a) \<and>
   (to options = None \<longrightarrow> buildHeaders options ! 0 = ''To: undefined'') \<and>
   (subject options = None \<or> subject options = Some [] \<longrightarrow>
      buildHeaders options ! 1 = ''Subject: (no subject)'') \<and>
   (\<forall>s. subject options = Some s \<and> s \<noteq> [] \<longrightarrow> buildHeaders options ! 1 = ''Subject: '' @ s) \<and>
   (html options = Some True \<longrightarrow>
      buildHeaders options ! 2 =
        ''Content-Type: text/html; charset='' @ [CHR 0x22] @ ''UTF-8'' @ [CHR 0x22]) \<and>
   (html options \<noteq> Some True \<longrightarrow>
      buildHeaders options ! 2 =
        ''Content-Type: text/plain; charset='' @ [CHR 0x22] @ ''UTF-8'' @ [CHR 0x22]) \<and>
   buildHeaders options ! 3 = ''MIME-Version: 1.0'' \<and>
   (inReplyTo options = None \<or> inReplyTo options = Some [] \<longrightarrow>
      length (buildHeaders options) = 4 \<and>
      buildMessage options =
        buildHeaders options ! 0 @ CRLF @ buildHeaders options ! 1 @ CRLF @
        buildHeaders options ! 2 @ CRLF @ buildHeaders options ! 3 @ CRLF @ CRLF @
        (case body options of None \<Rightarrow> [] | Some b \<Rightarrow> b)) \<and>
   (\<forall>i. inReplyTo options = Some i \<and> i \<noteq> [] \<longrightarrow>
      length (buildHeaders options) = 6 \<and>
      drop 4 (buildHeaders options) = [''In-Reply-To: '' @ i, ''References: '' @ i] \<and>
      buildMessage options =
        buildHeaders options ! 0 @ CRLF @ buildHeaders options ! 1 @ CRLF @
        buildHeaders options ! 2 @ CRLF @ buildHeaders options ! 3 @ CRLF @
        ''In-Reply-To: '' @ i @ CRLF @ ''References: '' @ i @ CRLF @ CRLF @
        (case body options of None \<Rightarrow> [] | Some b \<Rightarrow> b)) \<and>
   sendMessage_request userId options =
     \<lparr> sp_userId = (case userId of None \<Rightarrow> ''me'' | Some u \<Rightarrow> u),
       sp_raw = base64 (buildMessage options), sp_threadId = threadId options,
       sp_labelIds = send_labelIds options \<rparr> \<and>
   createDraft_request userId options =
     \<lparr> dp_userId = (case userId of None \<Rightarrow> ''me'' | Some u \<Rightarrow> u),
       dp_raw = base64 (buildMessage options), dp_threadId = threadId options \<rparr> \<and>
   (\<forall>data. messages_send gmail (sendMessage_request userId options) = Inr data \<longrightarrow>
      sendMessage gmail userId options console = (console, Inr data)) \<and>
   (messages_send gmail = Inr \<longrightarrow>
      sendMessage gmail userId options console = (console, Inr (sendMessage_request userId options)))"
proof (intro conjI allI impI)
  fix rs assume "to options = Some (Many rs)"
  then show "buildHeaders options ! 0 = ''To: '' @ join '','' rs"
    unfolding buildHeaders_nth by (simp add: render_to_def)
next
  fix a assume "to options = Some (One a)"
  then show "buildHeaders options ! 0 = ''To: '' @ a"
    unfolding buildHeaders_nth by (simp add: render_to_def)
next
  assume "to options = None"
  then show "buildHeaders options ! 0 = ''To: undefined''"
    unfolding buildHeaders_nth by (simp add: render_to_def)
next
  assume "subject options = None \<or> subject options = Some []"
  then show "buildHeaders options ! 1 = ''Subject: (no subject)''"
    unfolding buildHeaders_nth by (auto simp add: string_or_def)
next
  fix s assume "subject options = Some s \<and> s \<noteq> []"
  then show "buildHeaders options ! 1 = ''Subject: '' @ s"
    unfolding buildHeaders_nth by (simp add: string_or_def)
next
  assume "html options = Some True"
  then show "buildHeaders options ! 2 =
      ''Content-Type: text/html; charset='' @ [CHR 0x22] @ ''UTF-8'' @ [CHR 0x22]"
    unfolding buildHeaders_nth by (simp add: contentType_def)
next
  assume "html options \<noteq> Some True"
  then show "buildHeaders options ! 2 =
      ''Content-Type: text/plain; charset='' @ [CHR 0x22] @ ''UTF-8'' @ [CHR 0x22]"
    unfolding buildHeaders_nth by (simp add: contentType_def)
next
  show "buildHeaders options ! 3 = ''MIME-Version: 1.0''"
    by (rule buildHeaders_nth)
next
  assume "inReplyTo options = None \<or> inReplyTo options = Some []"
  then show "length (buildHeaders options) = 4"
    by (auto simp add: buildHeaders_def)
next
  assume a: "inReplyTo options = None \<or> inReplyTo options = Some []"
  have "join CRLF (buildHeaders options) =
      join CRLF [buildHeaders options ! 0, buildHeaders options ! 1, buildHeaders options ! 2,
        buildHeaders options ! 3]"
    using buildHeaders_plain [OF a] by simp
  then show "buildMessage options =
        buildHeaders options ! 0 @ CRLF @ buildHeaders options ! 1 @ CRLF @
        buildHeaders options ! 2 @ CRLF @ buildHeaders options ! 3 @ CRLF @ CRLF @
        (case body options of None \<Rightarrow> [] | Some b \<Rightarrow> b)"
    by (simp add: buildMessage_def string_or_empty)
next
  fix i assume "inReplyTo options = Some i \<and> i \<noteq> []"
  then show "length (buildHeaders options) = 6"
    by (simp add: buildHeaders_def)
next
  fix i assume "inReplyTo options = Some i \<and> i \<noteq> []"
  then show "drop 4 (buildHeaders options) = [''In-Reply-To: '' @ i, ''References: '' @ i]"
    by (simp add: buildHeaders_def)
next
  fix i assume a: "inReplyTo options = Some i \<and> i \<noteq> []"
  have "join CRLF (buildHeaders options) =
      join CRLF [buildHeaders options ! 0, buildHeaders options ! 1, buildHeaders options ! 2,
        buildHeaders options ! 3, ''In-Reply-To: '' @ i, ''References: '' @ i]"
    using a buildHeaders_reply [of options i] by simp
  then show "buildMessage options =
        buildHeaders options ! 0 @ CRLF @ buildHeaders options ! 1 @ CRLF @
        buildHeaders options ! 2 @ CRLF @ buildHeaders options ! 3 @ CRLF @
        ''In-Reply-To: '' @ i @ CRLF @ ''References: '' @ i @ CRLF @ CRLF @
        (case body options of None \<Rightarrow> [] | Some b \<Rightarrow> b)"
    by (simp add: buildMessage_def string_or_empty)
next
  show "sendMessage_request userId options =
     \<lparr> sp_userId = (case userId of None \<Rightarrow> ''me'' | Some u \<Rightarrow> u),
       sp_raw = base64 (buildMessage options), sp_threadId = threadId options,
       sp_labelIds = send_labelIds options \<rparr>"
    by (simp add: sendMessage_request_def userId_or_me_def)
next
  show "createDraft_request userId options =
     \<lparr> dp_userId = (case userId of None \<Rightarrow> ''me'' | Some u \<Rightarrow> u),
       dp_raw = base64 (buildMessage options), dp_threadId = threadId options \<rparr>"
    by (simp add: createDraft_request_def userId_or_me_def)
next
  fix data
  assume "messages_send gmail (sendMessage_request userId options) = Inr data"
  then show "sendMessage gmail userId options console = (console, Inr data)"
    by (simp add: sendMessage_def attempt_Inr)
next
  assume "messages_send gmail = Inr"
  then show "sendMessage gmail userId options console =
      (console, Inr (sendMessage_request userId options))"
    by (simp add: sendMessage_def attempt_Inr)
qed

text \<open>
  The envelope of the test with two recipients, which has no \<^verbatim>\<open>inReplyTo\<close>, and the
  envelope and the request of the reply.
\<close>

theorem buildMessage_envelope_witness:
  "buildMessage plain_options =
     ''To: test1@example.com,test2@example.com'' @ CRLF @ ''Subject: Test'' @ CRLF @
     ''Content-Type: text/plain; charset='' @ [CHR 0x22] @ ''UTF-8'' @ [CHR 0x22] @ CRLF @
     ''MIME-Version: 1.0'' @ CRLF @ CRLF @ ''Test body'' \<and>
   buildMessage reply_options =
     ''To: test1@example.com,test2@example.com'' @ CRLF @ ''Subject: (no subject)'' @ CRLF @
     ''Content-Type: text/html; charset='' @ [CHR 0x22] @ ''UTF-8'' @ [CHR 0x22] @ CRLF @
     ''MIME-Version: 1.0'' @ CRLF @ ''In-Reply-To: msg123'' @ CRLF @ ''References: msg123'' @
     CRLF @ CRLF @ ''Reply body'' \<and>
   drop 4 (buildHeaders reply_options) = [''In-Reply-To: msg123'', ''References: msg123''] \<and>
   sendMessage ((rejecting_api (Error ''API Error'') :: (send_params, string) gmail_api) \<lparr> messages_send := Inr \<rparr>) None reply_options ([] :: string logline list) =
     ([], Inr \<lparr> sp_userId = ''me'',
                sp_raw = ''VG86IHRlc3QxQGV4YW1wbGUuY29tLHRlc3QyQGV4YW1wbGUuY29tDQpTdWJqZWN0OiAobm8gc3ViamVjdCkNCkNvbnRlbnQtVHlwZTogdGV4dC9odG1sOyBjaGFyc2V0PSJVVEYtOCINCk1JTUUtVmVyc2lvbjogMS4wDQpJbi1SZXBseS1UbzogbXNnMTIzDQpSZWZlcmVuY2VzOiBtc2cxMjMNCg0KUmVwbHkgYm9keQ=='',
                sp_threadId = None, sp_labelIds = None \<rparr>)"
proof -
  have opts: "to reply_options = Some (Many [''test1@example.com'', ''test2@example.com''])"
    "subject reply_options = None" "html reply_options = Some True"
    "inReplyTo reply_options = Some ''msg123''" "threadId reply_options = None"
    "send_labelIds reply_options = None" "body reply_options = Some ''Reply body''"
    by (simp_all add: reply_options_def)
  have plain: "to plain_options = Some (Many [''test1@example.com'', ''test2@example.com''])"
    "subject plain_options = Some ''Test''" "html plain_options = None"
    "inReplyTo plain_options = None" "body plain_options = Some ''Test body''"
    by (simp_all add: plain_options_def)
  have echo: "messages_send ((rejecting_api (Error ''API Error'') :: (send_params, string) gmail_api) \<lparr> messages_send := Inr \<rparr>) = Inr"
    by (simp add: rejecting_api_def)
  have raw: "sendMessage_request None reply_options =
      \<lparr> sp_userId = ''me'',
        sp_raw = ''VG86IHRlc3QxQGV4YW1wbGUuY29tLHRlc3QyQGV4YW1wbGUuY29tDQpTdWJqZWN0OiAobm8gc3ViamVjdCkNCkNvbnRlbnQtVHlwZTogdGV4dC9odG1sOyBjaGFyc2V0PSJVVEYtOCINCk1JTUUtVmVyc2lvbjogMS4wDQpJbi1SZXBseS1UbzogbXNnMTIzDQpSZWZlcmVuY2VzOiBtc2cxMjMNCg0KUmVwbHkgYm9keQ=='',
        sp_threadId = None, sp_labelIds = None \<rparr>"
    by (simp add: sendMessage_request_def userId_or_me_def envelope_base64_example opts)
  have p: "buildMessage plain_options =
     ''To: test1@example.com,test2@example.com'' @ CRLF @ ''Subject: Test'' @ CRLF @
     ''Content-Type: text/plain; charset='' @ [CHR 0x22] @ ''UTF-8'' @ [CHR 0x22] @ CRLF @
     ''MIME-Version: 1.0'' @ CRLF @ CRLF @ ''Test body''"
    using buildMessage_envelope [of plain_options None
        "rejecting_api (Error ''API Error'') :: (send_params, string) gmail_api" "[]"]
    by (simp add: plain)
  have r: "buildMessage reply_options =
     ''To: test1@example.com,test2@example.com'' @ CRLF @ ''Subject: (no subject)'' @ CRLF @
     ''Content-Type: text/html; charset='' @ [CHR 0x22] @ ''UTF-8'' @ [CHR 0x22] @ CRLF @
     ''MIME-Version: 1.0'' @ CRLF @ ''In-Reply-To: msg123'' @ CRLF @ ''References: msg123'' @
     CRLF @ CRLF @ ''Reply body'' \<and>
     drop 4 (buildHeaders reply_options) = [''In-Reply-To: msg123'', ''References: msg123''] \<and>
     sendMessage ((rejecting_api (Error ''API Error'') :: (send_params, string) gmail_api) \<lparr> messages_send := Inr \<rparr>) None reply_options ([] :: string logline list) =
       ([], Inr (sendMessage_request None reply_options))"
    using buildMessage_envelope [of reply_options None
        "(rejecting_api (Error ''API Error'') :: (send_params, string) gmail_api) \<lparr> messages_send := Inr \<rparr>" "[]"] echo
    by (simp add: opts)
  show ?thesis
    using p r by (simp add: raw)
qed

text \<open>
  C3 as stated adds the two headers whenever \<^verbatim>\<open>inReplyTo\<close> is supplied. Supplied as
  the empty string, it adds none: the envelope has the four fixed headers only.
\<close>

theorem buildMessage_empty_inReplyTo:
  "inReplyTo \<lparr> to = Some (One ''test@example.com''), subject = Some ''Re: Test'',
       body = Some ''Reply body'', html = None, threadId = None, send_labelIds = None,
       inReplyTo = Some [] \<rparr> = Some [] \<and>
   buildHeaders \<lparr> to = Some (One ''test@example.com''), subject = Some ''Re: Test'',
       body = Some ''Reply body'', html = None, threadId = None, send_labelIds = None,
       inReplyTo = Some [] \<rparr> =
     [''To: test@example.com'', ''Subject: Re: Test'',
      ''Content-Type: text/plain; charset='' @ [CHR 0x22] @ ''UTF-8'' @ [CHR 0x22],
      ''MIME-Version: 1.0'']"
  by (simp add: buildHeaders_def render_to_def contentType_def string_or_def)

text \<open>
  C4. \<^verbatim>\<open>handleError\<close> logs the message of an \<^verbatim>\<open>Error\<close> and throws that error again;
  for any other value it logs \<^verbatim>\<open>Unknown Gmail API error:\<close> with the value and throws
  a new error with the message \<^verbatim>\<open>Unknown Gmail API error\<close>. Each of the eleven
  methods, when the call it makes to the SDK fails, ends as \<^verbatim>\<open>handleError\<close> does on
  that failure.
\<close>

theorem handleError_normalization:
  "(\<forall>m. handleError (Error m) console =
      (console @ [Line (''Gmail API error: '' @ m)], Error m)) \<and>
   (\<forall>v. handleError (NotError v) console =
      (console @ [LineWith ''Unknown Gmail API error:'' v], Error ''Unknown Gmail API error'')) \<and>
   (messages_list gmail (listMessages_request userId lopts) = Inl failure \<longrightarrow>
      listMessages gmail userId lopts console =
        (fst (handleError failure console), Inl (snd (handleError failure console)))) \<and>
   (messages_get gmail (getMessage_request userId messageId fmt) = Inl failure \<longrightarrow>
      getMessage gmail userId messageId fmt console =
        (fst (handleError failure console), Inl (snd (handleError failure console)))) \<and>
   (messages_list gmail (searchMessages_request userId query lopts) = Inl failure \<longrightarrow>
      searchMessages gmail userId query lopts console =
        (fst (handleError failure console), Inl (snd (handleError failure console)))) \<and>
   (messages_send gmail (sendMessage_request userId sopts) = Inl failure \<longrightarrow>
      sendMessage gmail userId sopts console =
        (fst (handleError failure console), Inl (snd (handleError failure console)))) \<and>
   (drafts_create gmail (createDraft_request userId sopts) = Inl failure \<longrightarrow>
      createDraft gmail userId sopts console =
        (fst (handleError failure console), Inl (snd (handleError failure console)))) \<and>
   (labels_list gmail (userId_or_me userId) = Inl failure \<longrightarrow>
      listLabels gmail userId console =
        (fst (handleError failure console), Inl (snd (handleError failure console)))) \<and>
   (messages_modify gmail (modifyMessageLabels_request userId messageId mopts) = Inl failure \<longrightarrow>
      modifyMessageLabels gmail userId messageId mopts console =
        (fst (handleError failure console), Inl (snd (handleError failure console)))) \<and>
   (messages_trash gmail (trashMessage_request userId messageId) = Inl failure \<longrightarrow>
      trashMessage gmail userId messageId console =
        (fst (handleError failure console), Inl (snd (handleError failure console)))) \<and>
   (messages_untrash gmail (untrashMessage_request userId messageId) = Inl failure \<longrightarrow>
      untrashMessage gmail userId messageId console =
        (fst (handleError failure console), Inl (snd (handleError failure console)))) \<and>
   (threads_list gmail (listThreads_request userId lopts) = Inl failure \<longrightarrow>
      listThreads gmail userId lopts console =
        (fst (handleError failure console), Inl (snd (handleError failure console)))) \<and>
   (threads_get gmail (getThread_request userId thread fmt) = Inl failure \<longrightarrow>
      getThread gmail userId thread fmt console =
        (fst (handleError failure console), Inl (snd (handleError failure console))))"
proof (intro conjI allI impI)
  show "\<And>m. handleError (Error m) console =
      (console @ [Line (''Gmail API error: '' @ m)], Error m)"
    by (simp add: handleError_def)
  show "\<And>v. handleError (NotError v) console =
      (console @ [LineWith ''Unknown Gmail API error:'' v], Error ''Unknown Gmail API error'')"
    by (simp add: handleError_def)
qed (simp_all only: listMessages_def getMessage_def searchMessages_def sendMessage_def
    createDraft_def listLabels_def modifyMessageLabels_def trashMessage_def untrashMessage_def
    listThreads_def getThread_def attempt_Inl)

theorem handleError_normalization_witness:
  "listMessages (rejecting_api (Error ''API Error'') :: (string, string) gmail_api) (Some ''me'') None [] =
     ([Line ''Gmail API error: API Error''], Inl (Error ''API Error'')) \<and>
   listMessages (rejecting_api (NotError ''string error'') :: (string, string) gmail_api) (Some ''me'') None [] =
     ([LineWith ''Unknown Gmail API error:'' ''string error''], Inl (Error ''Unknown Gmail API error'')) \<and>
   sendMessage (rejecting_api (Error ''API Error'') :: (string, string) gmail_api) None
     \<lparr> to = Some (One ''test@example.com''), subject = Some ''Test'', body = Some ''Test body'',
       html = None, threadId = None, send_labelIds = None, inReplyTo = None \<rparr> [] =
     ([Line ''Gmail API error: API Error''], Inl (Error ''API Error''))"
  using handleError_normalization [of "[]" "rejecting_api (Error ''API Error'') :: (string, string) gmail_api" "Some ''me''" None "Error ''API Error''"
      _ _ _ "\<lparr> to = Some (One ''test@example.com''), subject = Some ''Test'', body = Some ''Test body'',
       html = None, threadId = None, send_labelIds = None, inReplyTo = None \<rparr>"]
    handleError_normalization [of "[]" "rejecting_api (Error ''API Error'') :: (string, string) gmail_api" None None "Error ''API Error''"
      _ _ _ "\<lparr> to = Some (One ''test@example.com''), subject = Some ''Test'', body = Some ''Test body'',
       html = None, threadId = None, send_labelIds = None, inReplyTo = None \<rparr>"]
    handleError_normalization [of "[]" "rejecting_api (NotError ''string error'') :: (string, string) gmail_api" "Some ''me''" None "NotError ''string error''"]
  by (simp add: rejecting_api_def)

text \<open>
  C5. \<^verbatim>\<open>listMessages\<close>, \<^verbatim>\<open>searchMessages\<close>, \<^verbatim>\<open>listLabels\<close> and \<^verbatim>\<open>listThreads\<close>
  return the empty list when the response has no collection field, and the collection
  itself when it has one; the log is unchanged.
\<close>

theorem list_methods_default_empty:
  "(\<forall>data. messages_list gmail (listMessages_request userId lopts) = Inr data \<and> messages data = None \<longrightarrow>
      listMessages gmail userId lopts console = (console, Inr [])) \<and>
   (\<forall>data xs. messages_list gmail (listMessages_request userId lopts) = Inr data \<and> messages data = Some xs \<longrightarrow>
      listMessages gmail userId lopts console = (console, Inr xs)) \<and>
   (\<forall>data. messages_list gmail (searchMessages_request userId query lopts) = Inr data \<and> messages data = None \<longrightarrow>
      searchMessages gmail userId query lopts console = (console, Inr [])) \<and>
   (\<forall>data xs. messages_list gmail (searchMessages_request userId query lopts) = Inr data \<and> messages data = Some xs \<longrightarrow>
      searchMessages gmail userId query lopts console = (console, Inr xs)) \<and>
   (\<forall>data. labels_list gmail (userId_or_me userId) = Inr data \<and> labels data = None \<longrightarrow>
      listLabels gmail userId console = (console, Inr [])) \<and>
   (\<forall>data xs. labels_list gmail (userId_or_me userId) = Inr data \<and> labels data = Some xs \<longrightarrow>
      listLabels gmail userId console = (console, Inr xs)) \<and>
   (\<forall>data. threads_list gmail (listThreads_request userId lopts) = Inr data \<and> threads data = None \<longrightarrow>
      listThreads gmail userId lopts console = (console, Inr [])) \<and>
   (\<forall>data xs. threads_list gmail (listThreads_request userId lopts) = Inr data \<and> threads data = Some xs \<longrightarrow>
      listThreads gmail userId lopts console = (console, Inr xs))"
  by (intro conjI allI impI)
    (simp_all add: listMessages_def searchMessages_def listLabels_def listThreads_def
      attempt_Inr or_empty_def)

theorem list_methods_default_empty_witness:
  "listMessages ((rejecting_api (Error ''API Error'') :: (string, string) gmail_api)
       \<lparr> messages_list := (\<lambda>p. Inr \<lparr> messages = None \<rparr>) \<rparr>) (Some ''me'') None [] = ([], Inr []) \<and>
   listLabels ((rejecting_api (Error ''API Error'') :: (string, string) gmail_api)
       \<lparr> labels_list := (\<lambda>p. Inr \<lparr> labels = Some [''INBOX'', ''SENT''] \<rparr>) \<rparr>) None [] =
     ([], Inr [''INBOX'', ''SENT''])"
  using list_methods_default_empty [of "(rejecting_api (Error ''API Error'') :: (string, string) gmail_api)
       \<lparr> messages_list := (\<lambda>p. Inr \<lparr> messages = None \<rparr>) \<rparr>" "Some ''me''" None "[]"]
    list_methods_default_empty [of "(rejecting_api (Error ''API Error'') :: (string, string) gmail_api)
       \<lparr> labels_list := (\<lambda>p. Inr \<lparr> labels = Some [''INBOX'', ''SENT''] \<rparr>) \<rparr>" None None "[]"]
  by (simp add: rejecting_api_def)

text \<open>
  C10. \<^verbatim>\<open>searchMessages(userId, query, options)\<close> hands the SDK the request that
  \<^verbatim>\<open>listMessages\<close> hands it for the options with \<^verbatim>\<open>q\<close> set to the query, and
  ends as that call does: same result or same error, same log.
\<close>

theorem searchMessages_is_listMessages_with_query:
  "searchMessages_request userId (Some query) options =
     listMessages_request userId (Some (with_query query options)) \<and>
   searchMessages gmail userId (Some query) options console =
     listMessages_with_query gmail userId query options console"
proof -
  have req: "searchMessages_request userId (Some query) options =
      listMessages_request userId (Some (with_query query options))"
    by (cases options) (simp_all add: searchMessages_request_def listMessages_request_def
        with_query_def opt_def)
  then show ?thesis
    by (simp add: searchMessages_def listMessages_with_query_def listMessages_def)
qed

section \<open>The tool dispatcher: results\<close>










end
